theory Spec2Isabelle
  imports Main
begin

section \<open>The path functions of the platform\<close>

text \<open>
  \<open>run.js\<close> computes with paths through Node's \<open>path\<close> module, on a POSIX platform.
  Paths are strings. \<open>dirname\<close> follows the module's backwards scan character by
  character; \<open>normalizeString\<close>, \<open>path_resolve\<close>, \<open>path_join\<close>, \<open>path_relative\<close> and
  \<open>extname\<close> are given by their effect on the segments between the separators.
\<close>

primrec dirname_scan :: "string \<Rightarrow> nat \<Rightarrow> bool \<Rightarrow> nat option" where
  "dirname_scan p 0 matchedSlash = None"
| "dirname_scan p (Suc k) matchedSlash =
     (if p ! Suc k = CHR ''/''
      then (if \<not> matchedSlash then Some (Suc k) else dirname_scan p k matchedSlash)
      else dirname_scan p k False)"

definition dirname :: "string \<Rightarrow> string" where
  "dirname p =
     (if p = [] then ''.''
      else let hasRoot = (hd p = CHR ''/'') in
        case dirname_scan p (length p - 1) True of
          None \<Rightarrow> (if hasRoot then ''/'' else ''.'')
        | Some e \<Rightarrow> (if hasRoot \<and> e = 1 then ''//'' else take e p))"

fun split_on :: "char \<Rightarrow> string \<Rightarrow> string list" where
  "split_on c [] = [[]]"
| "split_on c (x # xs) =
     (if x = c then [] # split_on c xs
      else (case split_on c xs of [] \<Rightarrow> [[x]] | s # ss \<Rightarrow> (x # s) # ss))"

fun join_with :: "string \<Rightarrow> string list \<Rightarrow> string" where
  "join_with sep [] = []"
| "join_with sep [s] = s"
| "join_with sep (s # t # ss) = s @ sep @ join_with sep (t # ss)"

fun normalize_segments :: "bool \<Rightarrow> string list \<Rightarrow> string list \<Rightarrow> string list" where
  "normalize_segments allowAboveRoot res [] = res"
| "normalize_segments allowAboveRoot res (seg # segs) =
     (if seg = [] \<or> seg = ''.'' then normalize_segments allowAboveRoot res segs
      else if seg = ''..'' then
        (if res \<noteq> [] \<and> last res \<noteq> ''..''
         then normalize_segments allowAboveRoot (butlast res) segs
         else if allowAboveRoot then normalize_segments allowAboveRoot (res @ [''..'']) segs
         else normalize_segments allowAboveRoot res segs)
      else normalize_segments allowAboveRoot (res @ [seg]) segs)"

definition normalizeString :: "string \<Rightarrow> bool \<Rightarrow> string" where
  "normalizeString p allowAboveRoot =
     join_with ''/'' (normalize_segments allowAboveRoot [] (split_on CHR ''/'' p))"

definition normalize :: "string \<Rightarrow> string" where
  "normalize p =
     (if p = [] then ''.''
      else let isAbsolute = (hd p = CHR ''/'');
               trailingSeparator = (last p = CHR ''/'');
               q = normalizeString p (\<not> isAbsolute)
           in if q = [] then (if isAbsolute then ''/'' else if trailingSeparator then ''./'' else ''.'')
              else let q' = (if trailingSeparator then q @ ''/'' else q)
                   in if isAbsolute then ''/'' @ q' else q')"

text \<open>\<open>path.join(...args)\<close>: the non-empty arguments, joined by a separator, normalised.\<close>

definition path_join :: "string list \<Rightarrow> string" where
  "path_join args =
     (case filter (\<lambda>a. a \<noteq> []) args of
        [] \<Rightarrow> ''.''
      | joined \<Rightarrow> normalize (join_with ''/'' joined))"

text \<open>
  \<open>path.resolve(...args)\<close>: the arguments are read from the last to the first, then the
  working directory of the process, until one of them is absolute.
\<close>

fun resolve_scan :: "string list \<Rightarrow> string \<Rightarrow> string \<times> bool" where
  "resolve_scan [] resolvedPath = (resolvedPath, False)"
| "resolve_scan (p # ps) resolvedPath =
     (if p = [] then resolve_scan ps resolvedPath
      else if hd p = CHR ''/'' then (p @ ''/'' @ resolvedPath, True)
      else resolve_scan ps (p @ ''/'' @ resolvedPath))"

definition path_resolve :: "string \<Rightarrow> string list \<Rightarrow> string" where
  "path_resolve processCwd args =
     (case resolve_scan (rev args @ [processCwd]) [] of
        (resolvedPath, resolvedAbsolute) \<Rightarrow>
          let q = normalizeString resolvedPath (\<not> resolvedAbsolute)
          in if resolvedAbsolute then ''/'' @ q
             else if q \<noteq> [] then q else ''.'')"

text \<open>
  \<open>path.relative(from, to)\<close>: both paths resolved, their common leading segments dropped,
  one \<open>..\<close> for each segment left of \<open>from\<close>, then the segments left of \<open>to\<close>.
\<close>

fun drop_common :: "string list \<Rightarrow> string list \<Rightarrow> string list \<times> string list" where
  "drop_common (x # xs) (y # ys) =
     (if x = y then drop_common xs ys else (x # xs, y # ys))"
| "drop_common xs ys = (xs, ys)"

definition segments :: "string \<Rightarrow> string list" where
  "segments p = filter (\<lambda>s. s \<noteq> []) (split_on CHR ''/'' p)"

definition path_relative :: "string \<Rightarrow> string \<Rightarrow> string \<Rightarrow> string" where
  "path_relative processCwd from to =
     (if from = to then []
      else case drop_common (segments (path_resolve processCwd [from]))
                            (segments (path_resolve processCwd [to])) of
        (fromRest, toRest) \<Rightarrow> join_with ''/'' (map (\<lambda>_. ''..'') fromRest @ toRest))"

text \<open>
  \<open>path.extname(p)\<close>: from the last dot of the last segment of \<open>p\<close> (trailing separators
  apart) to its end; empty when that segment has no dot, starts with its only dot, or is
  \<open>..\<close>.
\<close>

definition last_index_of :: "char \<Rightarrow> string \<Rightarrow> nat option" where
  "last_index_of c s =
     (case filter (\<lambda>i. s ! i = c) (rev [0 ..< length s]) of [] \<Rightarrow> None | i # _ \<Rightarrow> Some i)"

definition extname :: "string \<Rightarrow> string" where
  "extname p =
     (case rev (segments p) of
        [] \<Rightarrow> []
      | base # _ \<Rightarrow>
          (case last_index_of CHR ''.'' base of
             None \<Rightarrow> []
           | Some k \<Rightarrow> (if k = 0 \<or> base = ''..'' then [] else drop k base)))"

section \<open>Data of the run\<close>

text \<open>The options record of \<open>run\<close> (lines 34-49). \<open>watch\<close> and \<open>artifactDirectory\<close> may be
  absent; \<open>extensions\<close> is read with a fallback (line 90), so it may be absent too.\<close>

record options =
  schema :: string
  src :: string
  extensions :: "string list option"
  "include" :: "string list"
  exclude :: "string list"
  verbose :: bool
  watchman :: bool
  watch :: "bool option"
  validate :: bool
  quiet :: bool
  noFutureProofEnums :: bool
  language :: string
  artifactDirectory :: "string option"
  customScalars :: "(string \<times> string) list"

text \<open>The truthiness of the optional flag \<open>options.watch\<close>.\<close>

definition watch_on :: "options \<Rightarrow> bool" where
  "watch_on opts = (watch opts = Some True)"

text \<open>The errors \<open>run.js\<close> throws, one constructor for each \<open>throw\<close> of the file, with the
  text it interpolates; \<open>GlobError\<close> is an error thrown by the glob library, which
  \<open>run.js\<close> does not catch, and \<open>EngineRejected\<close> is a rejection of the awaited engine
  call.\<close>

datatype error =
    SchemaPathMissing string
  | SourcePathMissing string
  | WatchmanRequired
  | WatchmanRootFileMissing string
  | QuietAndVerbose
  | SchemaLoadError string
  | PluginLoadError string
  | GlobError string
  | EngineRejected string

text \<open>The configuration errors are those of the option checks (lines 50-77).\<close>

fun is_config_error :: "error \<Rightarrow> bool" where
  "is_config_error (SchemaPathMissing _) = True"
| "is_config_error (SourcePathMissing _) = True"
| "is_config_error WatchmanRequired = True"
| "is_config_error (WatchmanRootFileMissing _) = True"
| "is_config_error QuietAndVerbose = True"
| "is_config_error _ = False"

text \<open>A language plugin: the two fields \<open>run\<close> reads as data. Its functions
  (\<open>findGraphQLTags\<close>, \<open>formatModule\<close>, \<open>typeGenerator\<close>) are only passed on.\<close>

record plugin =
  inputExtensions :: "string list"
  outputExtension :: string

text \<open>
  What \<open>require\<close> can return, as far as \<open>getLanguagePlugin\<close> looks at it: \<open>null\<close> or
  \<open>undefined\<close> (with the message of the TypeError that reading a property of it raises),
  another primitive (with its truthiness), an object that is not callable, or a function;
  the last two with their \<open>default\<close> property, if any. A function also has what calling it
  with no argument does: throw an error with a message, or return a plugin.
\<close>

datatype js_value =
    JSNullish string
  | JSPrimitive bool
  | JSObject "js_value option"
  | JSFunction "js_value option" "string + plugin"

fun truthy :: "js_value \<Rightarrow> bool" where
  "truthy (JSNullish _) = False"
| "truthy (JSPrimitive b) = b"
| "truthy (JSObject _) = True"
| "truthy (JSFunction _ _) = True"

text \<open>Reading the property \<open>default\<close>: an error message, or the value (\<open>None\<close> when the
  property is absent).\<close>

fun get_default :: "js_value \<Rightarrow> string + js_value option" where
  "get_default (JSNullish msg) = Inl msg"
| "get_default (JSPrimitive _) = Inr None"
| "get_default (JSObject d) = Inr d"
| "get_default (JSFunction d _) = Inr d"

record search_options =
  extensions :: "string list"
  "include" :: "string list"
  exclude :: "string list"

text \<open>A watchman expression is a nested array; the constructors are its head words.\<close>

datatype watch_expr =
    Allof "watch_expr list"
  | Anyof "watch_expr list"
  | Type string
  | Suffix string
  | Match string string
  | Not watch_expr

datatype parser_kind = SourceModuleParser | DotGraphQLParser

record 's parser_config =
  baseDir :: string
  parserKind :: parser_kind
  getSchema_result :: 's
  watchmanExpression :: "watch_expr option"
  filepaths :: "string list option"

text \<open>A writer configuration (lines 145-158). \<open>getWriter\<close> is the closure of
  \<open>getRelayFileWriter\<close> over its five arguments; \<open>isGeneratedFile\<close> is a closure over the
  output extension and the name of the directory of the artifacts.\<close>

record writer_config =
  writerBaseDir :: string
  writerPlugin :: plugin
  writerCustomScalars :: "(string \<times> string) list"
  writerNoFutureProofEnums :: bool
  writerOutputDir :: "string option"
  generatedDirectoryName :: string
  parser :: string
  baseParsers :: "string list"

record 's runner_config =
  reporterVerbose :: bool
  reporterQuiet :: bool
  parserConfigs :: "(string \<times> 's parser_config) list"
  writerConfigs :: "(string \<times> writer_config) list"
  onlyValidate :: bool

text \<open>The result tags of the engine; \<open>OtherResult\<close> is any value that is neither of the
  three strings.\<close>

datatype engine_result = ERROR | NO_CHANGES | HAS_CHANGES | OtherResult

text \<open>The calls \<open>run.js\<close> makes to its collaborators, in the order it makes them.\<close>

datatype 's event =
    ExistsSync string
  | ReadFileSync string
  | JSONParse string
  | BuildClientSchema
  | PrintSchema
  | Parse string
  | BuildASTSchema
  | NewLanguagePluginJavascript
  | Require string
  | CallPluginInitializer
  | NewConsoleReporter bool bool
  | WatchmanIsAvailable
  | NewSourceModuleParser
  | GlobSync "string list" string "string list"
  | NewCodegenRunner "'s runner_config"
  | ConsoleLog string
  | WatchAll
  | CompileAll
  | ProcessExit nat

fun is_engine_event :: "'s event \<Rightarrow> bool" where
  "is_engine_event (NewCodegenRunner _) = True"
| "is_engine_event WatchAll = True"
| "is_engine_event CompileAll = True"
| "is_engine_event _ = False"

fun is_fs_event :: "'s event \<Rightarrow> bool" where
  "is_fs_event (ExistsSync _) = True"
| "is_fs_event (ReadFileSync _) = True"
| "is_fs_event _ = False"

fun is_module_load_event :: "'s event \<Rightarrow> bool" where
  "is_module_load_event (Require _) = True"
| "is_module_load_event _ = False"

section \<open>The world outside the file\<close>

text \<open>
  What the collaborators answer: the working directory, the filesystem, the graphql
  library, the module loader, the watchman client, the glob library and the engine.
  A call that can throw answers \<open>Inl\<close> with the text of the error (its stack for the
  schema loader, its message for the plugin loader). The types of a parsed JSON value, of
  a document and of a schema are left open.
\<close>

record ('j, 'a, 's) world =
  cwd :: string
  existsSync :: "string \<Rightarrow> bool"
  readFileSync :: "string \<Rightarrow> string + string"
  JSON_parse :: "string \<Rightarrow> string + 'j"
  get_data :: "'j \<Rightarrow> string + 'j"
  buildClientSchema :: "'j \<Rightarrow> string + 's"
  printSchema :: "'s \<Rightarrow> string + string"
  parse :: "string \<Rightarrow> string + 'a"
  buildASTSchema :: "'a \<Rightarrow> string + 's"
  new_RelayLanguagePluginJavascript :: plugin
  require :: "string \<Rightarrow> string + js_value"
  watchmanIsAvailable :: bool
  glob_sync :: "string list \<Rightarrow> string \<Rightarrow> string list \<Rightarrow> string + string list"
  compileAll :: "'s runner_config \<Rightarrow> string + engine_result"
  watchAll :: "'s runner_config \<Rightarrow> string + engine_result"

section \<open>Calls, results and exceptions\<close>

text \<open>A computation gives the calls it made and an exception or a value. \<open>and_then\<close>
  sequences two of them: an exception of the first skips the second.\<close>

definition ret :: "'a \<Rightarrow> 'v list \<times> ('e + 'a)" where
  "ret a = ([], Inr a)"

definition throw :: "'e \<Rightarrow> 'v list \<times> ('e + 'a)" where
  "throw e = ([], Inl e)"

definition call :: "'v \<Rightarrow> 'e + 'a \<Rightarrow> 'v list \<times> ('e + 'a)" where
  "call ev r = ([ev], r)"

definition and_then ::
  "'v list \<times> ('e + 'a) \<Rightarrow> ('a \<Rightarrow> 'v list \<times> ('e + 'b)) \<Rightarrow> 'v list \<times> ('e + 'b)" where
  "and_then m f =
     (case m of
        (t, Inl e) \<Rightarrow> (t, Inl e)
      | (t, Inr a) \<Rightarrow> (case f a of (t', r) \<Rightarrow> (t @ t', r)))"

text \<open>\<open>try { m } catch (error) { throw h(error) }\<close>.\<close>

definition catch_rethrow ::
  "'v list \<times> ('e + 'a) \<Rightarrow> ('e \<Rightarrow> 'f) \<Rightarrow> 'v list \<times> ('f + 'a)" where
  "catch_rethrow m h =
     (case m of (t, Inl e) \<Rightarrow> (t, Inl (h e)) | (t, Inr a) \<Rightarrow> (t, Inr a))"

section \<open>hasWatchmanRootFile (lines 290-305)\<close>

definition WATCHMAN_ROOT_FILES :: "string list" where
  "WATCHMAN_ROOT_FILES = [''.git'', ''.hg'', ''.watchmanconfig'']"

text \<open>\<open>files.some(file => fs.existsSync(path.join(testPath, file)))\<close>: the files are
  tried in order, up to the first that exists.\<close>

fun some_exists ::
  "('j, 'a, 's) world \<Rightarrow> string \<Rightarrow> string list \<Rightarrow> 's event list \<times> bool" where
  "some_exists w testPath [] = ([], False)"
| "some_exists w testPath (file # files) =
     (if existsSync w (path_join [testPath, file])
      then ([ExistsSync (path_join [testPath, file])], True)
      else (case some_exists w testPath files of
              (t, b) \<Rightarrow> (ExistsSync (path_join [testPath, file]) # t, b)))"

function hasWatchmanRootFile ::
  "('j, 'a, 's) world \<Rightarrow> string \<Rightarrow> 's event list \<times> bool" where
  "hasWatchmanRootFile w testPath =
     (if dirname testPath \<noteq> testPath
      then (case some_exists w testPath WATCHMAN_ROOT_FILES of
              (t, True) \<Rightarrow> (t, True)
            | (t, False) \<Rightarrow>
                (case hasWatchmanRootFile w (dirname testPath) of
                   (t', b) \<Rightarrow> (t @ t', b)))
      else ([], False))"
  by pat_completeness auto

section \<open>The option checks of run (lines 50-77)\<close>

text \<open>The checks come in the order of the source; each \<open>throw\<close> ends the run. The value
  is the pair of \<open>schemaPath\<close> and \<open>srcDir\<close>.\<close>

definition run_checks ::
  "('j, 'a, 's) world \<Rightarrow> options \<Rightarrow> 's event list \<times> (error + string \<times> string)" where
  "run_checks w opts =
     (let schemaPath = path_resolve (cwd w) [cwd w, schema opts] in
      and_then (call (ExistsSync schemaPath) (Inr (existsSync w schemaPath))) (\<lambda>schemaExists.
      if \<not> schemaExists then throw (SchemaPathMissing schemaPath)
      else
      let srcDir = path_resolve (cwd w) [cwd w, src opts] in
      and_then (call (ExistsSync srcDir) (Inr (existsSync w srcDir))) (\<lambda>srcExists.
      if \<not> srcExists then throw (SourcePathMissing srcDir)
      else if watch_on opts \<and> \<not> watchman opts then throw WatchmanRequired
      else
      and_then (if watch_on opts
                then (case hasWatchmanRootFile w srcDir of (t, b) \<Rightarrow> (t, Inr b))
                else ret True) (\<lambda>rootFileOk.
      if \<not> rootFileOk then throw (WatchmanRootFileMissing srcDir)
      else if verbose opts \<and> quiet opts then throw QuietAndVerbose
      else ret (schemaPath, srcDir)))))"

section \<open>getSchema (lines 265-288)\<close>

definition newline :: string where
  "newline = [CHR 0x0A]"

text \<open>The template of lines 271-276 around the source text.\<close>

definition with_directives :: "string \<Rightarrow> string" where
  "with_directives source =
     newline
     @ ''  directive @include(if: Boolean) on FRAGMENT_SPREAD | FIELD'' @ newline
     @ ''  directive @skip(if: Boolean) on FRAGMENT_SPREAD | FIELD'' @ newline
     @ newline
     @ ''  '' @ source @ newline
     @ ''  ''"

text \<open>\<open>printSchema(buildClientSchema(JSON.parse(source).data))\<close>, innermost call first.\<close>

definition introspection_to_sdl ::
  "('j, 'a, 's) world \<Rightarrow> string \<Rightarrow> 's event list \<times> (string + string)" where
  "introspection_to_sdl w source =
     and_then (call (JSONParse source) (JSON_parse w source)) (\<lambda>json.
     and_then ([], get_data w json) (\<lambda>data.
     and_then (call BuildClientSchema (buildClientSchema w data)) (\<lambda>clientSchema.
     call PrintSchema (printSchema w clientSchema))))"

definition getSchema ::
  "('j, 'a, 's) world \<Rightarrow> string \<Rightarrow> 's event list \<times> (error + 's)" where
  "getSchema w schemaPath =
     catch_rethrow
       (and_then (call (ReadFileSync schemaPath) (readFileSync w schemaPath)) (\<lambda>source.
        and_then (if extname schemaPath = ''.json''
                  then introspection_to_sdl w source
                  else ret source) (\<lambda>source'.
        and_then (call (Parse (with_directives source')) (parse w (with_directives source')))
          (\<lambda>ast. call BuildASTSchema (buildASTSchema w ast)))))
       SchemaLoadError"

section \<open>getLanguagePlugin (lines 321-347)\<close>

text \<open>The unwrapping of a default export (lines 333-335).\<close>

definition unwrap_default :: "js_value \<Rightarrow> js_value option \<Rightarrow> js_value" where
  "unwrap_default languagePlugin d =
     (case d of
        None \<Rightarrow> languagePlugin
      | Some v \<Rightarrow> (if truthy v then v else languagePlugin))"

definition getLanguagePlugin ::
  "('j, 'a, 's) world \<Rightarrow> string \<Rightarrow> 's event list \<times> (error + plugin)" where
  "getLanguagePlugin w lang =
     (if lang = ''javascript''
      then call NewLanguagePluginJavascript (Inr (new_RelayLanguagePluginJavascript w))
      else
      let pluginPath = path_resolve (cwd w) [cwd w, lang] in
      and_then (call (ExistsSync pluginPath) (Inr (existsSync w pluginPath))) (\<lambda>pathExists.
      let requirePath =
            (if pathExists then pluginPath else ''relay-compiler-language-'' @ lang) in
      catch_rethrow
        (and_then (call (Require requirePath) (require w requirePath)) (\<lambda>languagePlugin.
         and_then ([], get_default languagePlugin) (\<lambda>d.
         case unwrap_default languagePlugin d of
           JSFunction _ body \<Rightarrow> call CallPluginInitializer body
         | _ \<Rightarrow> throw ''Expected plugin to export a function.'')))
        (\<lambda>message. PluginLoadError
           (''Unable to load language plugin '' @ requirePath @ '': '' @ message))))"

section \<open>File discovery (lines 184-217)\<close>

definition buildWatchExpression :: "search_options \<Rightarrow> watch_expr" where
  "buildWatchExpression so =
     Allof ([Type ''f'',
             Anyof (map Suffix (search_options.extensions so)),
             Anyof (map (\<lambda>inc. Match inc ''wholename'') (search_options.include so))]
            @ map (\<lambda>exc. Not (Match exc ''wholename'')) (search_options.exclude so))"

definition getFilepathsFromGlob ::
  "('j, 'a, 's) world \<Rightarrow> string \<Rightarrow> search_options \<Rightarrow> 's event list \<times> (error + string list)" where
  "getFilepathsFromGlob w dir so =
     (let patterns =
            map (\<lambda>inc. inc @ ''/*.+('' @ join_with ''|'' (search_options.extensions so) @ '')'')
                (search_options.include so) in
      and_then (call (Require ''fast-glob'') (Inr ())) (\<lambda>_.
      call (GlobSync patterns dir (search_options.exclude so))
           (case glob_sync w patterns dir (search_options.exclude so) of
              Inl message \<Rightarrow> Inl (GlobError message)
            | Inr paths \<Rightarrow> Inr paths)))"

section \<open>The loading and wiring of run (lines 79-171)\<close>

text \<open>The two searches of lines 108-117.\<close>

definition sourceSearchOptions :: "options \<Rightarrow> string list \<Rightarrow> search_options" where
  "sourceSearchOptions opts inputExts =
     \<lparr> search_options.extensions = inputExts,
       search_options.include = options.include opts,
       search_options.exclude = ''**/*.graphql.*'' # options.exclude opts \<rparr>"

definition graphqlSearchOptions ::
  "string \<Rightarrow> options \<Rightarrow> string \<Rightarrow> string \<Rightarrow> search_options" where
  "graphqlSearchOptions processCwd opts srcDir schemaPath =
     \<lparr> search_options.extensions = [''graphql''],
       search_options.include = options.include opts,
       search_options.exclude = [path_relative processCwd srcDir schemaPath] @ options.exclude opts \<rparr>"

text \<open>Setting a property of an object literal: a key written twice keeps its first place
  and its last value.\<close>

fun set_property :: "(string \<times> 'v) list \<Rightarrow> string \<Rightarrow> 'v \<Rightarrow> (string \<times> 'v) list" where
  "set_property [] k v = [(k, v)]"
| "set_property ((k', v') # kvs) k v =
     (if k' = k then (k, v) # kvs else (k', v') # set_property kvs k v)"

text \<open>\<open>useWatchman ? null : getFilepathsFromGlob(srcDir, so)\<close>.\<close>

definition static_filepaths ::
  "('j, 'a, 's) world \<Rightarrow> bool \<Rightarrow> string \<Rightarrow> search_options
     \<Rightarrow> 's event list \<times> (error + string list option)" where
  "static_filepaths w useWatchman srcDir so =
     (if useWatchman then ret None
      else and_then (getFilepathsFromGlob w srcDir so) (\<lambda>paths. ret (Some paths)))"

text \<open>Lines 79-98: the reporter, the watchman client, the schema, the plugin and the
  parser of the source modules. The value is \<open>useWatchman\<close>, the schema and the plugin.\<close>

definition run_load ::
  "('j, 'a, 's) world \<Rightarrow> options \<Rightarrow> string
     \<Rightarrow> 's event list \<times> (error + bool \<times> 's \<times> plugin)" where
  "run_load w opts schemaPath =
     and_then (call (NewConsoleReporter (verbose opts) (quiet opts)) (Inr ())) (\<lambda>_.
     and_then (if watchman opts
               then call WatchmanIsAvailable (Inr (watchmanIsAvailable w))
               else ret False) (\<lambda>useWatchman.
     and_then (getSchema w schemaPath) (\<lambda>loadedSchema.
     and_then (getLanguagePlugin w (language opts)) (\<lambda>languagePlugin.
     and_then (call NewSourceModuleParser (Inr ())) (\<lambda>_.
     ret (useWatchman, loadedSchema, languagePlugin))))))"

text \<open>Line 90: \<open>options.extensions || languagePlugin.inputExtensions\<close>; an array is
  truthy, also when empty.\<close>

definition inputExtensions_of :: "options \<Rightarrow> plugin \<Rightarrow> string list" where
  "inputExtensions_of opts languagePlugin =
     (case options.extensions opts of
        Some exts \<Rightarrow> exts
      | None \<Rightarrow> inputExtensions languagePlugin)"

text \<open>Lines 100-171: the configurations of the parsers and of the writer, the engine
  and the hint. A glob call that throws ends the run: the second search is not made and
  no engine is built.\<close>

definition run_wire ::
  "('j, 'a, 's) world \<Rightarrow> options \<Rightarrow> string \<Rightarrow> string \<Rightarrow> bool \<Rightarrow> 's \<Rightarrow> plugin
     \<Rightarrow> 's event list \<times> (error + 's runner_config)" where
  "run_wire w opts schemaPath srcDir useWatchman loadedSchema languagePlugin =
     (let inputExts = inputExtensions_of opts languagePlugin;
          outputExt = outputExtension languagePlugin;
          sourceParserName = join_with ''/'' inputExts;
          sourceWriterName = outputExt;
          artifactDir = map_option (\<lambda>d. path_resolve (cwd w) [cwd w, d]) (artifactDirectory opts);
          generatedDir = (case artifactDir of
                            None \<Rightarrow> ''__generated__''
                          | Some d \<Rightarrow> (if d = [] then ''__generated__'' else d));
          sourceSearch = sourceSearchOptions opts inputExts;
          graphqlSearch = graphqlSearchOptions (cwd w) opts srcDir schemaPath
      in
      and_then (static_filepaths w useWatchman srcDir sourceSearch) (\<lambda>sourceFilepaths.
      and_then (static_filepaths w useWatchman srcDir graphqlSearch) (\<lambda>graphqlFilepaths.
      let config =
            \<lparr> reporterVerbose = verbose opts,
              reporterQuiet = quiet opts,
              parserConfigs =
                set_property
                  (set_property [] sourceParserName
                     \<lparr> baseDir = srcDir,
                       parserKind = SourceModuleParser,
                       getSchema_result = loadedSchema,
                       watchmanExpression =
                         (if useWatchman then Some (buildWatchExpression sourceSearch) else None),
                       filepaths = sourceFilepaths \<rparr>)
                  ''graphql''
                  \<lparr> baseDir = srcDir,
                    parserKind = DotGraphQLParser,
                    getSchema_result = loadedSchema,
                    watchmanExpression =
                      (if useWatchman then Some (buildWatchExpression graphqlSearch) else None),
                    filepaths = graphqlFilepaths \<rparr>,
              writerConfigs =
                [(sourceWriterName,
                  \<lparr> writerBaseDir = srcDir,
                    writerPlugin = languagePlugin,
                    writerCustomScalars = customScalars opts,
                    writerNoFutureProofEnums = noFutureProofEnums opts,
                    writerOutputDir = artifactDir,
                    generatedDirectoryName = generatedDir,
                    parser = sourceParserName,
                    baseParsers = [''graphql''] \<rparr>)],
              onlyValidate = validate opts \<rparr>
      in
      and_then (call (NewCodegenRunner config) (Inr config)) (\<lambda>codegenRunner.
      and_then (if \<not> validate opts \<and> \<not> watch_on opts \<and> watchman opts
                then call (ConsoleLog ''HINT: pass --watch to keep watching for changes.'') (Inr ())
                else ret ()) (\<lambda>_.
      ret codegenRunner)))))"

text \<open>Lines 50-171: everything before the engine is asked to work.\<close>

definition run_prepare ::
  "('j, 'a, 's) world \<Rightarrow> options \<Rightarrow> 's event list \<times> (error + 's runner_config)" where
  "run_prepare w opts =
     and_then (run_checks w opts) (\<lambda>(schemaPath, srcDir).
     and_then (run_load w opts schemaPath) (\<lambda>(useWatchman, loadedSchema, languagePlugin).
     run_wire w opts schemaPath srcDir useWatchman loadedSchema languagePlugin))"

section \<open>run (lines 34-182)\<close>

text \<open>How a run ends: an exception, a call of \<open>process.exit\<close>, or the return of the
  function.\<close>

datatype outcome = Threw error | Exited nat | Returned

text \<open>Lines 176-181.\<close>

definition exit_mapping :: "options \<Rightarrow> engine_result \<Rightarrow> 's event list \<times> outcome" where
  "exit_mapping opts result =
     (if result = ERROR then ([ProcessExit 100], Exited 100)
      else if validate opts \<and> result \<noteq> NO_CHANGES then ([ProcessExit 101], Exited 101)
      else ([], Returned))"

definition run :: "('j, 'a, 's) world \<Rightarrow> options \<Rightarrow> 's event list \<times> outcome" where
  "run w opts =
     (case run_prepare w opts of
        (t, Inl e) \<Rightarrow> (t, Threw e)
      | (t, Inr codegenRunner) \<Rightarrow>
          (case (if watch_on opts
                 then (WatchAll, watchAll w codegenRunner)
                 else (CompileAll, compileAll w codegenRunner)) of
             (ev, Inl message) \<Rightarrow> (t @ [ev], Threw (EngineRejected message))
           | (ev, Inr result) \<Rightarrow>
               (case exit_mapping opts result of (t', out) \<Rightarrow> (t @ [ev] @ t', out))))"

text \<open>The status with which the process ends: the argument of \<open>process.exit\<close>, or 0 when
  the function returns and nothing else sets a status. An exception leaves it to the
  caller.\<close>

fun exit_code :: "outcome \<Rightarrow> nat option" where
  "exit_code (Exited n) = Some n"
| "exit_code Returned = Some 0"
| "exit_code (Threw _) = None"

section \<open>Notions of the properties\<close>

text \<open>The measure under which \<open>dirname\<close> decreases until it reaches its fixed point.\<close>

definition path_measure :: "string \<Rightarrow> nat" where
  "path_measure p = (if p = ''.'' then 0 else length p + 1)"

text \<open>A directory and its ancestors: the directory, its parent, and so on up to the
  directory that is its own parent, which is the last of the list.\<close>

function dir_chain :: "string \<Rightarrow> string list" where
  "dir_chain p = (if dirname p \<noteq> p then p # dir_chain (dirname p) else [p])"
  by pat_completeness auto

text \<open>A directory contains a watchman root file: an entry with one of the three names
  exists in it.\<close>

definition has_root_file :: "('j, 'a, 's) world \<Rightarrow> string \<Rightarrow> bool" where
  "has_root_file w dir =
     list_ex (\<lambda>file. existsSync w (path_join [dir, file])) WATCHMAN_ROOT_FILES"






section \<open>A sample project\<close>

text \<open>A world with the working directory \<open>/proj\<close>, the given existing paths, readable
  files with a one-type schema, a graphql library that keeps the text as document and
  schema, no loadable plugin package, a running watchman and an engine that answers the
  given result.\<close>

definition sample_world :: "string list \<Rightarrow> engine_result \<Rightarrow> (string, string, string) world" where
  "sample_world files result =
     \<lparr> cwd = ''/proj'',
       existsSync = (\<lambda>p. p \<in> set files),
       readFileSync = (\<lambda>p. if p \<in> set files then Inr ''type Query { id: ID }'' else Inl ''ENOENT''),
       JSON_parse = (\<lambda>text. Inr text),
       get_data = (\<lambda>json. Inr json),
       buildClientSchema = (\<lambda>json. Inr json),
       printSchema = (\<lambda>s. Inr s),
       parse = (\<lambda>text. Inr text),
       buildASTSchema = (\<lambda>ast. Inr ast),
       new_RelayLanguagePluginJavascript =
         \<lparr> inputExtensions = [''js'', ''jsx''], outputExtension = ''js'' \<rparr>,
       require = (\<lambda>_. Inl ''Cannot find module''),
       watchmanIsAvailable = True,
       glob_sync = (\<lambda>_ _ _. Inr []),
       compileAll = (\<lambda>_. Inr result),
       watchAll = (\<lambda>_. Inr result) \<rparr>"

definition sample_files :: "string list" where
  "sample_files = [''/proj/schema.graphql'', ''/proj/src'', ''/proj/.git'']"

definition sample_options :: options where
  "sample_options =
     \<lparr> schema = ''schema.graphql'',
       src = ''src'',
       options.extensions = None,
       options.include = [''**''],
       options.exclude = [''**/node_modules/**'', ''**/__generated__/**''],
       verbose = False,
       watchman = False,
       watch = None,
       validate = False,
       quiet = False,
       noFutureProofEnums = False,
       language = ''javascript'',
       artifactDirectory = None,
       customScalars = [] \<rparr>"

section \<open>Termination of the walk to the root\<close>

text \<open>The backwards scan of \<open>dirname\<close> stops at a separator strictly inside the path,
  and strictly before its last character when it started after the end.\<close>

lemma dirname_scan_bound:
  "dirname_scan p k m = Some e \<Longrightarrow> 1 \<le> e \<and> e \<le> k \<and> (m \<longrightarrow> e < k)"
proof (induction k arbitrary: m)
  case 0
  then show ?case by simp
next
  case (Suc k)
  show ?case
  proof (cases "p ! Suc k = CHR ''/''")
    case True
    show ?thesis
    proof (cases m)
      case True
      with \<open>p ! Suc k = CHR ''/''\<close> Suc.prems have "dirname_scan p k m = Some e" by simp
      from Suc.IH[OF this] True show ?thesis by simp
    next
      case False
      with \<open>p ! Suc k = CHR ''/''\<close> Suc.prems show ?thesis by simp
    qed
  next
    case False
    with Suc.prems have "dirname_scan p k False = Some e" by simp
    from Suc.IH[OF this] show ?thesis by simp
  qed
qed

text \<open>Unless it returns its argument, \<open>dirname\<close> returns a path of smaller measure.\<close>

lemma dirname_decreases:
  assumes "dirname p \<noteq> p"
  shows "path_measure (dirname p) < path_measure p"
proof (cases "p = []")
  case True
  then show ?thesis by (simp add: dirname_def path_measure_def)
next
  case False
  note nonempty = this
  show ?thesis
  proof (cases "dirname_scan p (length p - 1) True")
    case None
    show ?thesis
    proof (cases "hd p = CHR ''/''")
      case True
      with None nonempty have d: "dirname p = ''/''" by (simp add: dirname_def)
      with assms have "p \<noteq> ''/''" by simp
      with True nonempty have "2 \<le> length p" by (cases p) (auto simp: Suc_le_eq)
      with d show ?thesis by (auto simp: path_measure_def)
    next
      case False
      with None nonempty have d: "dirname p = ''.''" by (simp add: dirname_def)
      with assms have "p \<noteq> ''.''" by simp
      with d show ?thesis by (simp add: path_measure_def)
    qed
  next
    case (Some e)
    from dirname_scan_bound[OF Some] have e: "1 \<le> e" "e < length p - 1" by simp_all
    show ?thesis
    proof (cases "hd p = CHR ''/'' \<and> e = 1")
      case True
      with Some nonempty have d: "dirname p = ''//''" by (simp add: dirname_def)
      from e True have "3 \<le> length p" by simp
      with d show ?thesis by (auto simp: path_measure_def)
    next
      case False
      with Some nonempty have d: "dirname p = take e p" by (auto simp: dirname_def)
      have "length (take e p) = e" using e by simp
      moreover have "p \<noteq> ''.''" using e by auto
      ultimately show ?thesis using d e by (auto simp: path_measure_def)
    qed
  qed
qed

text \<open>So the loop of \<open>hasWatchmanRootFile\<close> ends for every path, and so does the chain
  of the ancestors.\<close>

termination hasWatchmanRootFile
  by (relation "measure (\<lambda>(w, p). path_measure p)") (auto simp: dirname_decreases)

termination dir_chain
  by (relation "measure path_measure") (auto simp: dirname_decreases)

declare hasWatchmanRootFile.simps [simp del]

declare dir_chain.simps [simp del]

section \<open>The walk to the root and the option checks\<close>

lemmas io_defs = and_then_def call_def ret_def throw_def catch_rethrow_def

text \<open>\<open>some\<close> answers whether one of the files exists in the directory, and asks nothing
  of the engine.\<close>

lemma some_exists_snd:
  "snd (some_exists w p files) = list_ex (\<lambda>file. existsSync w (path_join [p, file])) files"
  by (induction files) (auto split: prod.splits)

lemma some_exists_no_engine: "filter is_engine_event (fst (some_exists w p files)) = []"
  by (induction files) (auto split: prod.splits)

lemma hasWatchmanRootFile_no_engine:
  "filter is_engine_event (fst (hasWatchmanRootFile w p)) = []"
proof (induction w p rule: hasWatchmanRootFile.induct)
  case (1 w testPath)
  show ?case
  proof (cases "dirname testPath \<noteq> testPath")
    case False
    then show ?thesis by (simp add: hasWatchmanRootFile.simps[of w testPath])
  next
    case True
    obtain t b where sb: "some_exists w testPath WATCHMAN_ROOT_FILES = (t, b)" by force
    have t: "filter is_engine_event t = []"
      using some_exists_no_engine[of w testPath WATCHMAN_ROOT_FILES] sb by simp
    show ?thesis
    proof (cases b)
      case True
      with \<open>dirname testPath \<noteq> testPath\<close> sb t show ?thesis
        by (simp add: hasWatchmanRootFile.simps[of w testPath])
    next
      case False
      with 1[OF \<open>dirname testPath \<noteq> testPath\<close> sb[symmetric]] \<open>dirname testPath \<noteq> testPath\<close> sb t
      show ?thesis
        by (auto simp add: hasWatchmanRootFile.simps[of w testPath] split: prod.splits)
    qed
  qed
qed

text \<open>What the loop computes: a root file in one of the directories it visits, which are
  the directory and its ancestors without the last one, the directory that is its own
  parent.\<close>

lemma hasWatchmanRootFile_iff:
  "snd (hasWatchmanRootFile w p) = list_ex (has_root_file w) (butlast (dir_chain p))"
proof (induction w p rule: hasWatchmanRootFile.induct)
  case (1 w testPath)
  show ?case
  proof (cases "dirname testPath \<noteq> testPath")
    case False
    then show ?thesis
      by (simp add: hasWatchmanRootFile.simps[of w testPath] dir_chain.simps[of testPath])
  next
    case True
    obtain t b where sb: "some_exists w testPath WATCHMAN_ROOT_FILES = (t, b)" by force
    have b: "b = has_root_file w testPath"
      using some_exists_snd[of w testPath WATCHMAN_ROOT_FILES] sb by (simp add: has_root_file_def)
    have ne: "dir_chain (dirname testPath) \<noteq> []"
      by (subst dir_chain.simps) simp
    show ?thesis
    proof (cases b)
      case True
      with \<open>dirname testPath \<noteq> testPath\<close> sb b ne show ?thesis
        by (simp add: hasWatchmanRootFile.simps[of w testPath] dir_chain.simps[of testPath])
    next
      case False
      with 1[OF \<open>dirname testPath \<noteq> testPath\<close> sb[symmetric]] \<open>dirname testPath \<noteq> testPath\<close> sb b ne
      show ?thesis
        by (auto simp add: hasWatchmanRootFile.simps[of w testPath] dir_chain.simps[of testPath]
                 split: prod.splits)
    qed
  qed
qed

text \<open>The result of the checks, as a decision list in the order of the source.\<close>

lemma run_checks_result:
  "snd (run_checks w opts) =
     (let schemaPath = path_resolve (cwd w) [cwd w, schema opts];
          srcDir = path_resolve (cwd w) [cwd w, src opts]
      in if \<not> existsSync w schemaPath then Inl (SchemaPathMissing schemaPath)
         else if \<not> existsSync w srcDir then Inl (SourcePathMissing srcDir)
         else if watch_on opts \<and> \<not> watchman opts then Inl WatchmanRequired
         else if watch_on opts \<and> \<not> snd (hasWatchmanRootFile w srcDir)
           then Inl (WatchmanRootFileMissing srcDir)
         else if verbose opts \<and> quiet opts then Inl QuietAndVerbose
         else Inr (schemaPath, srcDir))"
  by (auto simp add: run_checks_def io_defs Let_def split: prod.splits)

lemma run_checks_no_engine: "filter is_engine_event (fst (run_checks w opts)) = []"
  using hasWatchmanRootFile_no_engine[of w "path_resolve (cwd w) [cwd w, src opts]"]
  by (auto simp add: run_checks_def io_defs Let_def split: prod.splits)

text \<open>A failed check is the exception of the run, and nothing is called after it.\<close>

lemma run_checks_fail:
  assumes "snd (run_checks w opts) = Inl e"
  shows "run w opts = (fst (run_checks w opts), Threw e)"
  using assms by (cases "run_checks w opts") (simp add: run_def run_prepare_def and_then_def)

section \<open>The schema loader\<close>

text \<open>The conversion of an introspection file makes its three calls in this order.\<close>

lemma introspection_to_sdl_events:
  assumes "introspection_to_sdl w source = (t, Inr sdl)"
  shows "t = [JSONParse source, BuildClientSchema, PrintSchema]"
  using assms
  by (auto simp add: introspection_to_sdl_def io_defs split: sum.splits)

text \<open>A readable file whose extension is not \<open>.json\<close>: the parser gets the text of the
  file inside the template with the two directive declarations, and the schema is what
  \<open>buildASTSchema\<close> makes of the document.\<close>

lemma getSchema_sdl:
  assumes "readFileSync w p = Inr source" and "extname p \<noteq> ''.json''"
  shows "getSchema w p =
     (case parse w (with_directives source) of
        Inl e \<Rightarrow> ([ReadFileSync p, Parse (with_directives source)], Inl (SchemaLoadError e))
      | Inr ast \<Rightarrow>
          ([ReadFileSync p, Parse (with_directives source), BuildASTSchema],
           case buildASTSchema w ast of
             Inl e \<Rightarrow> Inl (SchemaLoadError e)
           | Inr s \<Rightarrow> Inr s))"
  using assms by (simp add: getSchema_def io_defs split: sum.splits)

text \<open>A readable file with the extension \<open>.json\<close>: the text is converted first, and the
  parser gets the converted text inside the same template; a failed conversion is a
  schema-load error, and the parser is not called.\<close>

lemma getSchema_json:
  assumes "readFileSync w p = Inr source" and "extname p = ''.json''"
    and "introspection_to_sdl w source = (t, Inr sdl)"
  shows "getSchema w p =
     (case parse w (with_directives sdl) of
        Inl e \<Rightarrow> (ReadFileSync p # t @ [Parse (with_directives sdl)], Inl (SchemaLoadError e))
      | Inr ast \<Rightarrow>
          (ReadFileSync p # t @ [Parse (with_directives sdl), BuildASTSchema],
           case buildASTSchema w ast of
             Inl e \<Rightarrow> Inl (SchemaLoadError e)
           | Inr s \<Rightarrow> Inr s))"
  using assms by (simp add: getSchema_def io_defs split: sum.splits)

lemma getSchema_json_failure:
  assumes "readFileSync w p = Inr source" and "extname p = ''.json''"
    and "introspection_to_sdl w source = (t, Inl e)"
  shows "getSchema w p = (ReadFileSync p # t, Inl (SchemaLoadError e))"
  using assms by (simp add: getSchema_def io_defs split: sum.splits)

section \<open>The file searches of the wiring\<close>











section \<open>The claims\<close>

text \<open>
  Claim C1. For every run that reaches the point where the engine is asked to work, and
  whose engine call returns a result: when the result is the error result, the process
  exits with code 100; otherwise, when validate-only mode is on and the result is not
  the no-changes result, it exits with code 101; otherwise the run returns, which is
  exit code 0.
\<close>

theorem run_exit_code_mapping:
  assumes "run_prepare w opts = (t, Inr codegenRunner)"
    and "(if watch_on opts then watchAll w codegenRunner else compileAll w codegenRunner)
           = Inr result"
  shows "snd (run w opts) =
           (if result = ERROR then Exited 100
            else if validate opts \<and> result \<noteq> NO_CHANGES then Exited 101
            else Returned)
         \<and> exit_code (snd (run w opts)) =
           Some (if result = ERROR then 100
                 else if validate opts \<and> result \<noteq> NO_CHANGES then 101
                 else 0)"
  using assms by (simp add: run_def exit_mapping_def split: if_splits)

text \<open>The three branches on the sample project: an engine error, pending changes with
  and without validate-only mode, and no change in validate-only mode.\<close>

theorem run_exit_code_mapping_witness:
  "snd (run (sample_world sample_files ERROR) sample_options) = Exited 100
   \<and> snd (run (sample_world sample_files HAS_CHANGES) (sample_options\<lparr>validate := True\<rparr>))
        = Exited 101
   \<and> snd (run (sample_world sample_files HAS_CHANGES) sample_options) = Returned
   \<and> exit_code (snd (run (sample_world sample_files NO_CHANGES)
                        (sample_options\<lparr>validate := True\<rparr>))) = Some 0"
proof -
  have reach: "\<And>r opts. \<not> isl (snd (run_prepare (sample_world sample_files r) opts))
       \<Longrightarrow> \<exists>t c. run_prepare (sample_world sample_files r) opts = (t, Inr c)"
    by (metis sum.collapse(2) prod.collapse)
  have engine: "\<And>r opts c. (if watch_on opts then watchAll (sample_world sample_files r) c
                         else compileAll (sample_world sample_files r) c) = Inr r"
    by (simp add: sample_world_def)
  have p1: "\<not> isl (snd (run_prepare (sample_world sample_files ERROR) sample_options))"
    by code_simp
  have p2: "\<not> isl (snd (run_prepare (sample_world sample_files HAS_CHANGES)
                    (sample_options\<lparr>validate := True\<rparr>)))"
    by code_simp
  have p3: "\<not> isl (snd (run_prepare (sample_world sample_files HAS_CHANGES) sample_options))"
    by code_simp
  have p4: "\<not> isl (snd (run_prepare (sample_world sample_files NO_CHANGES)
                    (sample_options\<lparr>validate := True\<rparr>)))"
    by code_simp
  have v: "validate (sample_options\<lparr>validate := True\<rparr>)" "\<not> validate sample_options"
    by (simp_all add: sample_options_def)
  from reach[OF p1] obtain t1 c1 where
    "run_prepare (sample_world sample_files ERROR) sample_options = (t1, Inr c1)" by blast
  from run_exit_code_mapping[OF this engine]
  have r1: "snd (run (sample_world sample_files ERROR) sample_options) = Exited 100" by simp
  from reach[OF p2] obtain t2 c2 where
    "run_prepare (sample_world sample_files HAS_CHANGES) (sample_options\<lparr>validate := True\<rparr>)
       = (t2, Inr c2)" by blast
  from run_exit_code_mapping[OF this engine] v
  have r2: "snd (run (sample_world sample_files HAS_CHANGES) (sample_options\<lparr>validate := True\<rparr>))
              = Exited 101" by simp
  from reach[OF p3] obtain t3 c3 where
    "run_prepare (sample_world sample_files HAS_CHANGES) sample_options = (t3, Inr c3)" by blast
  from run_exit_code_mapping[OF this engine] v
  have r3: "snd (run (sample_world sample_files HAS_CHANGES) sample_options) = Returned" by simp
  from reach[OF p4] obtain t4 c4 where
    "run_prepare (sample_world sample_files NO_CHANGES) (sample_options\<lparr>validate := True\<rparr>)
       = (t4, Inr c4)" by blast
  from run_exit_code_mapping[OF this engine] v
  have r4: "exit_code (snd (run (sample_world sample_files NO_CHANGES)
                        (sample_options\<lparr>validate := True\<rparr>))) = Some 0" by simp
  from r1 r2 r3 r4 show ?thesis by simp
qed

text \<open>
  Claim C2, as stated, fails: with both \<open>verbose\<close> and \<open>quiet\<close> set and a schema path
  that does not exist, the run fails with the error of the schema path, not with the
  error of the two flags. The check of the flags is the last of the checks.
\<close>

theorem quiet_verbose_not_first_counterexample:
  "verbose (sample_options\<lparr>schema := ''missing.graphql'', verbose := True, quiet := True\<rparr>)
   \<and> quiet (sample_options\<lparr>schema := ''missing.graphql'', verbose := True, quiet := True\<rparr>)
   \<and> run (sample_world sample_files NO_CHANGES)
          (sample_options\<lparr>schema := ''missing.graphql'', verbose := True, quiet := True\<rparr>)
       = ([ExistsSync ''/proj/missing.graphql''], Threw (SchemaPathMissing ''/proj/missing.graphql''))
   \<and> Threw (SchemaPathMissing ''/proj/missing.graphql'') \<noteq> Threw QuietAndVerbose"
  by code_simp

text \<open>
  Claim C2, amended. For every option set in which both \<open>verbose\<close> and \<open>quiet\<close> are
  true, the run fails with a configuration error before any call to the engine. The
  error is that of the first check that fails, in the order of the checks: the schema
  path, the source path, watch without watchman, the root file; it is the error of the
  two flags exactly when all these earlier checks pass.
\<close>

theorem quiet_and_verbose_fails:
  assumes "verbose opts" and "quiet opts"
  shows "snd (run w opts) =
           Threw (if \<not> existsSync w (path_resolve (cwd w) [cwd w, schema opts])
                  then SchemaPathMissing (path_resolve (cwd w) [cwd w, schema opts])
                  else if \<not> existsSync w (path_resolve (cwd w) [cwd w, src opts])
                  then SourcePathMissing (path_resolve (cwd w) [cwd w, src opts])
                  else if watch_on opts \<and> \<not> watchman opts
                  then WatchmanRequired
                  else if watch_on opts
                          \<and> \<not> snd (hasWatchmanRootFile w (path_resolve (cwd w) [cwd w, src opts]))
                  then WatchmanRootFileMissing (path_resolve (cwd w) [cwd w, src opts])
                  else QuietAndVerbose)
         \<and> (\<exists>e. snd (run w opts) = Threw e \<and> is_config_error e
                \<and> (e = QuietAndVerbose \<longleftrightarrow>
                     existsSync w (path_resolve (cwd w) [cwd w, schema opts])
                     \<and> existsSync w (path_resolve (cwd w) [cwd w, src opts])
                     \<and> (watch_on opts \<longrightarrow>
                           watchman opts
                           \<and> snd (hasWatchmanRootFile w (path_resolve (cwd w) [cwd w, src opts])))))
         \<and> filter is_engine_event (fst (run w opts)) = []"
proof -
  let ?e = "if \<not> existsSync w (path_resolve (cwd w) [cwd w, schema opts])
            then SchemaPathMissing (path_resolve (cwd w) [cwd w, schema opts])
            else if \<not> existsSync w (path_resolve (cwd w) [cwd w, src opts])
            then SourcePathMissing (path_resolve (cwd w) [cwd w, src opts])
            else if watch_on opts \<and> \<not> watchman opts
            then WatchmanRequired
            else if watch_on opts
                    \<and> \<not> snd (hasWatchmanRootFile w (path_resolve (cwd w) [cwd w, src opts]))
            then WatchmanRootFileMissing (path_resolve (cwd w) [cwd w, src opts])
            else QuietAndVerbose"
  have e: "snd (run_checks w opts) = Inl ?e"
    using assms by (simp add: run_checks_result Let_def)
  from run_checks_fail[OF e] have r: "run w opts = (fst (run_checks w opts), Threw ?e)" .
  have c: "is_config_error ?e" by simp
  have q: "?e = QuietAndVerbose \<longleftrightarrow>
             existsSync w (path_resolve (cwd w) [cwd w, schema opts])
             \<and> existsSync w (path_resolve (cwd w) [cwd w, src opts])
             \<and> (watch_on opts \<longrightarrow>
                   watchman opts
                   \<and> snd (hasWatchmanRootFile w (path_resolve (cwd w) [cwd w, src opts])))"
    by simp
  have t: "filter is_engine_event (fst (run w opts)) = []"
    using r by (simp add: run_checks_no_engine)
  have s: "snd (run w opts) = Threw ?e" using r by simp
  from s c q have x: "\<exists>e. snd (run w opts) = Threw e \<and> is_config_error e
                \<and> (e = QuietAndVerbose \<longleftrightarrow>
                     existsSync w (path_resolve (cwd w) [cwd w, schema opts])
                     \<and> existsSync w (path_resolve (cwd w) [cwd w, src opts])
                     \<and> (watch_on opts \<longrightarrow>
                           watchman opts
                           \<and> snd (hasWatchmanRootFile w (path_resolve (cwd w) [cwd w, src opts]))))"
    by blast
  from s x t show ?thesis by blast
qed

text \<open>On the sample project: when the earlier checks pass, and when watch is set
  without watchman.\<close>

theorem quiet_and_verbose_fails_witness:
  "snd (run (sample_world sample_files NO_CHANGES)
          (sample_options\<lparr>verbose := True, quiet := True\<rparr>)) = Threw QuietAndVerbose
   \<and> snd (run (sample_world sample_files NO_CHANGES)
          (sample_options\<lparr>verbose := True, quiet := True, watch := Some True\<rparr>))
       = Threw WatchmanRequired
   \<and> filter is_engine_event
        (fst (run (sample_world sample_files NO_CHANGES)
               (sample_options\<lparr>verbose := True, quiet := True\<rparr>))) = []"
proof -
  let ?w = "sample_world sample_files NO_CHANGES"
  let ?o = "sample_options\<lparr>verbose := True, quiet := True\<rparr>"
  let ?o' = "sample_options\<lparr>verbose := True, quiet := True, watch := Some True\<rparr>"
  have v: "verbose ?o" and q: "quiet ?o" by (simp_all add: sample_options_def)
  have v': "verbose ?o'" and q': "quiet ?o'" by (simp_all add: sample_options_def)
  have pass: "existsSync ?w (path_resolve (cwd ?w) [cwd ?w, schema ?o])
              \<and> existsSync ?w (path_resolve (cwd ?w) [cwd ?w, src ?o])
              \<and> \<not> watch_on ?o"
    by code_simp
  have pass': "existsSync ?w (path_resolve (cwd ?w) [cwd ?w, schema ?o'])
              \<and> existsSync ?w (path_resolve (cwd ?w) [cwd ?w, src ?o'])
              \<and> watch_on ?o' \<and> \<not> watchman ?o'"
    by code_simp
  from quiet_and_verbose_fails[OF v q, of ?w] pass
  have a: "snd (run ?w ?o) = Threw QuietAndVerbose"
    and c: "filter is_engine_event (fst (run ?w ?o)) = []" by simp_all
  from quiet_and_verbose_fails[OF v' q', of ?w] pass'
  have b: "snd (run ?w ?o') = Threw WatchmanRequired" by simp
  from a b c show ?thesis by simp
qed

text \<open>
  Claim C3. For every option set whose schema path or source path does not resolve,
  from the working directory, to an existing path, the run throws a configuration error
  (the one of the schema path when it is missing, else the one of the source path), and
  no call to the engine is made before.
\<close>

theorem missing_path_fails_before_engine:
  assumes "\<not> existsSync w (path_resolve (cwd w) [cwd w, schema opts])
           \<or> \<not> existsSync w (path_resolve (cwd w) [cwd w, src opts])"
  shows "snd (run w opts) =
           Threw (if \<not> existsSync w (path_resolve (cwd w) [cwd w, schema opts])
                  then SchemaPathMissing (path_resolve (cwd w) [cwd w, schema opts])
                  else SourcePathMissing (path_resolve (cwd w) [cwd w, src opts]))
         \<and> (\<exists>e. snd (run w opts) = Threw e \<and> is_config_error e)
         \<and> filter is_engine_event (fst (run w opts)) = []"
proof -
  let ?e = "if \<not> existsSync w (path_resolve (cwd w) [cwd w, schema opts])
            then SchemaPathMissing (path_resolve (cwd w) [cwd w, schema opts])
            else SourcePathMissing (path_resolve (cwd w) [cwd w, src opts])"
  have "snd (run_checks w opts) = Inl ?e"
    using assms by (auto simp add: run_checks_result Let_def)
  from run_checks_fail[OF this] have r: "run w opts = (fst (run_checks w opts), Threw ?e)" .
  have c: "is_config_error ?e" by simp
  from r c show ?thesis by (simp add: run_checks_no_engine)
qed

text \<open>On a project without its source directory.\<close>

theorem missing_path_fails_before_engine_witness:
  "\<not> existsSync (sample_world [''/proj/schema.graphql''] NO_CHANGES)
       (path_resolve ''/proj'' [''/proj'', ''src''])
   \<and> run (sample_world [''/proj/schema.graphql''] NO_CHANGES) sample_options
       = ([ExistsSync ''/proj/schema.graphql'', ExistsSync ''/proj/src''],
          Threw (SourcePathMissing ''/proj/src''))"
proof -
  have h: "\<not> existsSync (sample_world [''/proj/schema.graphql''] NO_CHANGES)
       (path_resolve ''/proj'' [''/proj'', ''src''])"
    by code_simp
  have t: "fst (run (sample_world [''/proj/schema.graphql''] NO_CHANGES) sample_options)
     = [ExistsSync ''/proj/schema.graphql'', ExistsSync ''/proj/src'']"
    by code_simp
  have "snd (run (sample_world [''/proj/schema.graphql''] NO_CHANGES) sample_options)
     = Threw (SourcePathMissing ''/proj/src'')"
    using missing_path_fails_before_engine
      [of "sample_world [''/proj/schema.graphql''] NO_CHANGES" sample_options]
    by (simp add: sample_world_def sample_options_def path_resolve_def normalizeString_def)
  with h t show ?thesis by (simp add: prod_eq_iff)
qed

text \<open>
  Claim C4, as stated, fails: with watch and watchman set and no root file in the source
  directory or above it, a run whose schema path does not exist fails with the error of
  the schema path, not with the error of the root file. The paths are checked first.
\<close>

theorem no_root_file_schema_missing_counterexample:
  "watch (sample_options\<lparr>watch := Some True, watchman := True\<rparr>) = Some True
   \<and> watchman (sample_options\<lparr>watch := Some True, watchman := True\<rparr>)
   \<and> \<not> list_ex (has_root_file (sample_world [''/proj/src''] NO_CHANGES)) (dir_chain ''/proj/src'')
   \<and> run (sample_world [''/proj/src''] NO_CHANGES)
          (sample_options\<lparr>watch := Some True, watchman := True\<rparr>)
       = ([ExistsSync ''/proj/schema.graphql''], Threw (SchemaPathMissing ''/proj/schema.graphql''))
   \<and> Threw (SchemaPathMissing ''/proj/schema.graphql'') \<noteq> Threw (WatchmanRootFileMissing ''/proj/src'')"
  by code_simp

text \<open>
  Claim C4, amended. For every option set with watch and watchman true whose schema path
  and source directory exist, where neither the source directory nor any of its
  ancestors contains an entry named \<open>.git\<close>, \<open>.hg\<close> or \<open>.watchmanconfig\<close>, the run fails
  with the error of the root file before any call to the engine.
\<close>

theorem no_root_file_fails:
  assumes "watch opts = Some True" and "watchman opts"
    and "existsSync w (path_resolve (cwd w) [cwd w, schema opts])"
    and "existsSync w (path_resolve (cwd w) [cwd w, src opts])"
    and "\<forall>d \<in> set (dir_chain (path_resolve (cwd w) [cwd w, src opts])). \<not> has_root_file w d"
  shows "snd (run w opts) = Threw (WatchmanRootFileMissing (path_resolve (cwd w) [cwd w, src opts]))
         \<and> filter is_engine_event (fst (run w opts)) = []"
proof -
  let ?srcDir = "path_resolve (cwd w) [cwd w, src opts]"
  have "\<not> list_ex (has_root_file w) (butlast (dir_chain ?srcDir))"
    using assms(5) by (auto simp add: list_ex_iff dest: in_set_butlastD)
  then have "\<not> snd (hasWatchmanRootFile w ?srcDir)"
    by (simp add: hasWatchmanRootFile_iff)
  with assms have "snd (run_checks w opts) = Inl (WatchmanRootFileMissing ?srcDir)"
    by (simp add: run_checks_result Let_def watch_on_def)
  from run_checks_fail[OF this] show ?thesis by (simp add: run_checks_no_engine)
qed

text \<open>On a project with its schema and its source directory and no root file.\<close>

theorem no_root_file_fails_witness:
  "run (sample_world [''/proj/schema.graphql'', ''/proj/src''] NO_CHANGES)
       (sample_options\<lparr>watch := Some True, watchman := True\<rparr>)
   = ([ExistsSync ''/proj/schema.graphql'', ExistsSync ''/proj/src'',
       ExistsSync ''/proj/src/.git'', ExistsSync ''/proj/src/.hg'',
       ExistsSync ''/proj/src/.watchmanconfig'',
       ExistsSync ''/proj/.git'', ExistsSync ''/proj/.hg'', ExistsSync ''/proj/.watchmanconfig''],
      Threw (WatchmanRootFileMissing ''/proj/src''))"
proof -
  let ?w = "sample_world [''/proj/schema.graphql'', ''/proj/src''] NO_CHANGES"
  let ?o = "sample_options\<lparr>watch := Some True, watchman := True\<rparr>"
  have h1: "watch ?o = Some True" and h2: "watchman ?o" by (simp_all add: sample_options_def)
  have h3: "existsSync ?w (path_resolve (cwd ?w) [cwd ?w, schema ?o])" by code_simp
  have h4: "existsSync ?w (path_resolve (cwd ?w) [cwd ?w, src ?o])" by code_simp
  have "list_all (\<lambda>d. \<not> has_root_file ?w d) (dir_chain (path_resolve (cwd ?w) [cwd ?w, src ?o]))"
    by code_simp
  then have h5: "\<forall>d \<in> set (dir_chain (path_resolve (cwd ?w) [cwd ?w, src ?o])). \<not> has_root_file ?w d"
    by (simp add: list_all_iff)
  have s: "path_resolve (cwd ?w) [cwd ?w, src ?o] = ''/proj/src''" by code_simp
  have t: "fst (run ?w ?o) = [ExistsSync ''/proj/schema.graphql'', ExistsSync ''/proj/src'',
       ExistsSync ''/proj/src/.git'', ExistsSync ''/proj/src/.hg'',
       ExistsSync ''/proj/src/.watchmanconfig'',
       ExistsSync ''/proj/.git'', ExistsSync ''/proj/.hg'', ExistsSync ''/proj/.watchmanconfig'']"
    by code_simp
  from no_root_file_fails[OF h1 h2 h3 h4 h5] s
  have "snd (run ?w ?o) = Threw (WatchmanRootFileMissing ''/proj/src'')" by simp
  with t show ?thesis by (simp add: prod_eq_iff)
qed

text \<open>
  Claim C7. For the language \<open>javascript\<close> the resolver returns the built-in plugin; the
  only call it makes is the construction of that plugin: it asks nothing of the
  filesystem and loads no module.
\<close>

theorem javascript_plugin_is_builtin:
  "getLanguagePlugin w ''javascript''
     = ([NewLanguagePluginJavascript], Inr (new_RelayLanguagePluginJavascript w))
   \<and> filter is_fs_event (fst (getLanguagePlugin w ''javascript'')) = []
   \<and> filter is_module_load_event (fst (getLanguagePlugin w ''javascript'')) = []"
  by (simp add: getLanguagePlugin_def call_def)






text \<open>
  Claim C10. The search for a root file ends for every path (the function is total),
  but it does not look into the directory that is its own parent: with \<open>.git\<close> in the
  root directory only, the search from \<open>/a\<close> looks into \<open>/a\<close>, stops at \<open>/\<close> and
  answers false, although \<open>/\<close> is on the chain of the ancestors of \<open>/a\<close> and contains a
  root file.
\<close>

theorem root_directory_not_inspected:
  "hasWatchmanRootFile (sample_world [''/.git'', ''/a''] NO_CHANGES) ''/a''
     = ([ExistsSync ''/a/.git'', ExistsSync ''/a/.hg'', ExistsSync ''/a/.watchmanconfig''], False)
   \<and> dir_chain ''/a'' = [''/a'', ''/'']
   \<and> has_root_file (sample_world [''/.git'', ''/a''] NO_CHANGES) ''/''"
  by code_simp

end
